theory Spec2Isabelle
  imports Complex_Main "HOL-Library.AList"
begin

section \<open>Values of the Python program\<close>

text \<open>
  A Python float is modelled as an exact real number or one of the three special values
  that \<^verbatim>\<open>float()\<close> can produce from a string.  Rounding to binary64, overflow to
  infinity and the sign of zero are not modelled: finite arithmetic is exact.
\<close>

datatype pyfloat = Fin real | PInf | NInf | NaN

datatype error =
  NameError | ZeroDivisionError | ValueError | OverflowError | KeyError | IndexError | TypeError

text \<open>Float addition, \<^verbatim>\<open>a + b\<close>.\<close>

fun fadd :: "pyfloat \<Rightarrow> pyfloat \<Rightarrow> pyfloat" where
  "fadd (Fin a) (Fin b) = Fin (a + b)"
| "fadd NaN _ = NaN"
| "fadd _ NaN = NaN"
| "fadd PInf NInf = NaN"
| "fadd NInf PInf = NaN"
| "fadd PInf _ = PInf"
| "fadd NInf _ = NInf"
| "fadd _ PInf = PInf"
| "fadd _ NInf = NInf"

text \<open>Float times a finite number of seconds, \<^verbatim>\<open>value * (end - start).total_seconds()\<close>.\<close>

fun fscale :: "pyfloat \<Rightarrow> real \<Rightarrow> pyfloat" where
  "fscale (Fin a) d = Fin (a * d)"
| "fscale NaN d = NaN"
| "fscale PInf d = (if d = 0 then NaN else if 0 < d then PInf else NInf)"
| "fscale NInf d = (if d = 0 then NaN else if 0 < d then NInf else PInf)"

text \<open>
  Float divided by a finite number, \<^verbatim>\<open>a / d\<close>: \<open>fquot\<close> is the quotient for a
  non-zero divisor, and Python raises on a zero divisor.
\<close>

fun fquot :: "pyfloat \<Rightarrow> real \<Rightarrow> pyfloat" where
  "fquot (Fin x) d = Fin (x / d)"
| "fquot NaN d = NaN"
| "fquot PInf d = (if 0 < d then PInf else NInf)"
| "fquot NInf d = (if 0 < d then NInf else PInf)"

definition fdiv :: "pyfloat \<Rightarrow> real \<Rightarrow> error + pyfloat" where
  "fdiv a d = (if d = 0 then Inl ZeroDivisionError else Inr (fquot a d))"

text \<open>The comparison \<^verbatim>\<open>a < b\<close>; every comparison with NaN is false.\<close>

fun fless :: "pyfloat \<Rightarrow> pyfloat \<Rightarrow> bool" where
  "fless (Fin a) (Fin b) = (a < b)"
| "fless NaN _ = False"
| "fless _ NaN = False"
| "fless PInf _ = False"
| "fless _ NInf = False"
| "fless NInf _ = True"
| "fless _ PInf = True"

text \<open>The comparison \<^verbatim>\<open>a != b\<close> between an optional number and a number.\<close>

fun py_ne :: "pyfloat option \<Rightarrow> pyfloat \<Rightarrow> bool" where
  "py_ne None b = True"
| "py_ne (Some NaN) b = True"
| "py_ne (Some a) NaN = True"
| "py_ne (Some a) b = (a \<noteq> b)"

text \<open>The builtin \<^verbatim>\<open>sum(values)\<close>: a left fold from 0.\<close>

definition py_sum :: "pyfloat list \<Rightarrow> pyfloat" where
  "py_sum values = foldl fadd (Fin 0) values"

text \<open>\<^verbatim>\<open>int(x)\<close> truncates towards zero and raises on NaN and on the infinities.\<close>

fun py_int :: "pyfloat \<Rightarrow> error + pyfloat" where
  "py_int (Fin x) = Inr (Fin (real_of_int (if 0 \<le> x then \<lfloor>x\<rfloor> else \<lceil>x\<rceil>)))"
| "py_int NaN = Inl ValueError"
| "py_int PInf = Inl OverflowError"
| "py_int NInf = Inl OverflowError"

definition round_half_even :: "real \<Rightarrow> int" where
  "round_half_even x =
     (let f = \<lfloor>x\<rfloor>; d = x - real_of_int f
      in if d < 1 / 2 then f else if 1 / 2 < d then f + 1 else if even f then f else f + 1)"

text \<open>\<^verbatim>\<open>round(x, ndigits)\<close> on a float gives a float; NaN and the infinities pass through.\<close>

fun py_round :: "pyfloat \<Rightarrow> nat \<Rightarrow> pyfloat" where
  "py_round (Fin x) p = Fin (real_of_int (round_half_even (x * 10 ^ p)) / 10 ^ p)"
| "py_round a p = a"

section \<open>Parsing a state string: the builtin float()\<close>

text \<open>
  The grammar of the Python language reference for \<^verbatim>\<open>float(str)\<close>, on ASCII input:
  surrounding whitespace is ignored, then an optional sign, then \<^verbatim>\<open>inf\<close>,
  \<^verbatim>\<open>infinity\<close> or \<^verbatim>\<open>nan\<close> in any letter case, or a decimal number with optional
  fraction and exponent, digits optionally grouped by single underscores.  \<open>None\<close> stands for
  the ValueError that \<^verbatim>\<open>float()\<close> raises.
\<close>

definition is_space :: "char \<Rightarrow> bool" where
  "is_space c =
     (c \<in> set [CHR '' '', CHR 0x09, CHR 0x0A, CHR 0x0B, CHR 0x0C, CHR 0x0D,
                CHR 0x1C, CHR 0x1D, CHR 0x1E, CHR 0x1F])"

definition strip :: "string \<Rightarrow> string" where
  "strip s = rev (dropWhile is_space (rev (dropWhile is_space s)))"

definition is_digit :: "char \<Rightarrow> bool" where
  "is_digit c = (c \<in> set ''0123456789'')"

definition digit_val :: "char \<Rightarrow> nat" where
  "digit_val c = of_char c - 48"

definition lower :: "char \<Rightarrow> char" where
  "lower c = (if c \<in> set ''ABCDEFGHIJKLMNOPQRSTUVWXYZ'' then char_of (of_char c + (32::nat)) else c)"

fun digitpart :: "string \<Rightarrow> nat list \<times> string" where
  "digitpart [] = ([], [])"
| "digitpart [c] = (if is_digit c then ([digit_val c], []) else ([], [c]))"
| "digitpart (c # d # cs) =
     (if is_digit c then
        (if d = CHR ''_'' then
           (case cs of
              [] \<Rightarrow> ([digit_val c], d # cs)
            | e # _ \<Rightarrow>
                if is_digit e then (case digitpart cs of (ds, r) \<Rightarrow> (digit_val c # ds, r))
                else ([digit_val c], d # cs))
         else (case digitpart (d # cs) of (ds, r) \<Rightarrow> (digit_val c # ds, r)))
      else ([], c # d # cs))"

definition digits_value :: "nat list \<Rightarrow> nat" where
  "digits_value ds = foldl (\<lambda>n d. 10 * n + d) 0 ds"

definition exponent :: "string \<Rightarrow> int option" where
  "exponent s =
     (case s of
        [] \<Rightarrow> Some 0
      | c # cs \<Rightarrow>
          if c = CHR ''e'' \<or> c = CHR ''E'' then
            (let (neg, body) =
                   (case cs of
                      [] \<Rightarrow> (False, [])
                    | x # xs \<Rightarrow>
                        if x = CHR ''-'' then (True, xs)
                        else if x = CHR ''+'' then (False, xs) else (False, cs))
             in case digitpart body of
                  (ds, r) \<Rightarrow>
                    if ds = [] \<or> r \<noteq> [] then None
                    else Some (if neg then - int (digits_value ds) else int (digits_value ds)))
          else None)"

definition floatnumber :: "string \<Rightarrow> real option" where
  "floatnumber body =
     (case digitpart body of
        (ip, r1) \<Rightarrow>
          (case (case r1 of
                   [] \<Rightarrow> ([], [])
                 | c # cs \<Rightarrow> if c = CHR ''.'' then digitpart cs else ([], r1)) of
             (fp, r2) \<Rightarrow>
               if ip = [] \<and> fp = [] then None
               else (case exponent r2 of
                       None \<Rightarrow> None
                     | Some e \<Rightarrow>
                         (let m = real (digits_value (ip @ fp)); k = e - int (length fp)
                          in Some (if 0 \<le> k then m * 10 ^ nat k else m / 10 ^ nat (- k))))))"

definition py_float :: "string \<Rightarrow> pyfloat option" where
  "py_float raw =
     (let t = strip raw;
          (neg, body) =
            (case t of
               [] \<Rightarrow> (False, [])
             | c # cs \<Rightarrow>
                 if c = CHR ''-'' then (True, cs)
                 else if c = CHR ''+'' then (False, cs) else (False, t));
          low = map lower body
      in if low = ''inf'' \<or> low = ''infinity'' then Some (if neg then NInf else PInf)
         else if low = ''nan'' then Some NaN
         else map_option (\<lambda>r. Fin (if neg then - r else r)) (floatnumber body))"


section \<open>The sensor\<close>

text \<open>
  Instants are seconds on the real line; the difference of two of them is what
  \<^verbatim>\<open>(end - start).total_seconds()\<close> returns.  A sample is the tuple
  \<^verbatim>\<open>(timestamp_start, state)\<close> of the source.
\<close>

type_synonym instant = real
type_synonym sample = "instant \<times> pyfloat"

datatype average_method = TimeWeighted | Linear
datatype total_method = TotalSum | TotalAverage

text \<open>
  Values of the attribute dictionary.  \<open>VStrFloat x\<close> is the string object \<^verbatim>\<open>str(x)\<close> of a
  float \<open>x\<close>, whose characters (the shortest representation of a binary64) are not modelled;
  \<open>VFloat x\<close> is the number \<open>x\<close> itself.
\<close>

datatype pyval = VNone | VStr string | VStrFloat pyfloat | VFloat pyfloat | VList "string list"

text \<open>
  The constants that the source imports from \<^verbatim>\<open>homeassistant.const\<close>, with the values
  they have there, and the attribute names of \<^verbatim>\<open>const.py\<close>.
\<close>

definition STATE_UNAVAILABLE :: string where "STATE_UNAVAILABLE = ''unavailable''"
definition STATE_UNKNOWN :: string where "STATE_UNKNOWN = ''unknown''"
definition ATTR_ENTITY_ID :: string where "ATTR_ENTITY_ID = ''entity_id''"
definition ATTR_MIN_VALUE :: string where "ATTR_MIN_VALUE = ''min_value''"
definition ATTR_MIN_ENTITY_ID :: string where "ATTR_MIN_ENTITY_ID = ''min_entity_id''"
definition ATTR_MAX_VALUE :: string where "ATTR_MAX_VALUE = ''max_value''"
definition ATTR_MAX_ENTITY_ID :: string where "ATTR_MAX_ENTITY_ID = ''max_entity_id''"

record sensor =
  scan_interval :: real
  precision :: nat
  extremas :: bool
  avg_method :: average_method
  total_method :: total_method
  native_value :: "pyfloat option"
  extra_state_attributes :: "string \<rightharpoonup> pyval"
  states :: "(string \<times> sample list) list"
  min_value :: "pyfloat option"
  max_value :: "pyfloat option"
  min_entity_id :: "string option"
  max_entity_id :: "string option"

text \<open>What \<^verbatim>\<open>async_write_ha_state\<close> publishes: the native value and the attributes.\<close>

record report =
  rep_value :: "pyfloat option"
  rep_attributes :: "string \<rightharpoonup> pyval"

text \<open>
  The constructor.  The dictionary \<^verbatim>\<open>{e: [] for e in self._entity_ids}\<close> is an
  association list in insertion order with one entry per key.
\<close>

definition init :: "real \<Rightarrow> string list \<Rightarrow> nat \<Rightarrow> bool \<Rightarrow> average_method \<Rightarrow> total_method \<Rightarrow> sensor" where
  "init interval entity_ids prec extr meth tmeth =
     \<lparr> scan_interval = interval, precision = prec, extremas = extr, avg_method = meth,
       total_method = tmeth, native_value = None,
       extra_state_attributes = [ATTR_ENTITY_ID \<mapsto> VList entity_ids],
       states = foldl (\<lambda>al e. AList.update e [] al) [] entity_ids,
       min_value = None, max_value = None, min_entity_id = None, max_entity_id = None \<rparr>"

subsection \<open>Ingestion\<close>

text \<open>
  \<^verbatim>\<open>_async_sensor_changed(entity_id, old_state, new_state)\<close>.  The new state is absent or
  carries its state string and its \<^verbatim>\<open>last_updated\<close> instant.  ValueError and TypeError
  raised inside the \<^verbatim>\<open>try\<close> block are caught: the handler returns with whatever was stored
  before the raise.  A KeyError from \<^verbatim>\<open>self.states[entity_id]\<close> is not caught.
\<close>

definition async_sensor_changed ::
    "string \<Rightarrow> (string \<times> instant) option \<Rightarrow> sensor \<Rightarrow> (error + unit) \<times> sensor" where
  "async_sensor_changed entity_id new_state s =
     (case new_state of
        None \<Rightarrow> (Inr (), s)
      | Some (st, last_updated) \<Rightarrow>
          if st = STATE_UNAVAILABLE \<or> st = STATE_UNKNOWN then (Inr (), s)
          else
            (case py_float st of
               None \<Rightarrow> (Inr (), s)
             | Some v \<Rightarrow>
                 (case map_of (states s) entity_id of
                    None \<Rightarrow> (Inl KeyError, s)
                  | Some buf \<Rightarrow>
                      (let s1 = s\<lparr>states := AList.update entity_id (buf @ [(last_updated, v)]) (states s)\<rparr>
                       in if extremas s1 then
                            (case min_value s1 of
                               None \<Rightarrow>
                                 (Inr (), s1\<lparr>min_value := Some v, max_value := Some v,
                                             min_entity_id := Some entity_id,
                                             max_entity_id := Some entity_id\<rparr>)
                             | Some mn \<Rightarrow>
                                 if fless v mn then
                                   (Inr (), s1\<lparr>min_value := Some v, min_entity_id := Some entity_id\<rparr>)
                                 else
                                   (case max_value s1 of
                                      None \<Rightarrow> (Inr (), s1)
                                    | Some mx \<Rightarrow>
                                        if fless mx v then
                                          (Inr (), s1\<lparr>max_value := Some v,
                                                      max_entity_id := Some entity_id\<rparr>)
                                        else (Inr (), s1)))
                          else (Inr (), s1)))))"

subsection \<open>The tick\<close>

text \<open>
  The loop of \<^verbatim>\<open>calculate_tw\<close> over \<^verbatim>\<open>enumerate(states)\<close>: the end of a sample is the
  start of its successor, or \<open>now\<close> for the last one.
\<close>

fun tw_loop :: "instant \<Rightarrow> sample list \<Rightarrow> nat \<Rightarrow> (nat \<times> sample) list \<Rightarrow> pyfloat \<Rightarrow> pyfloat" where
  "tw_loop now sts states_len [] result = result"
| "tw_loop now sts states_len ((index, (start, v)) # rest) result =
     (let end_t = (if index < states_len then fst (sts ! (index + 1)) else now)
      in tw_loop now sts states_len rest (fadd result (fscale v (end_t - start))))"

text \<open>
  \<^verbatim>\<open>calculate_tw(now, entity_id, states)\<close>: \<^verbatim>\<open>states[-1]\<close> raises on an empty list, the
  division raises on a zero interval (both before the buffer is touched), and the buffer of
  \<open>entity_id\<close> is then cleared and seeded with \<open>(now, last_value)\<close>.
\<close>

definition calculate_tw ::
    "instant \<Rightarrow> string \<Rightarrow> sample list \<Rightarrow> sensor \<Rightarrow> (error + pyfloat) \<times> sensor" where
  "calculate_tw now entity_id sts s =
     (if sts = [] then (Inl IndexError, s)
      else
        (let last_value = snd (last sts);
             states_len = length sts - 1;
             result = tw_loop now sts states_len (enumerate 0 sts) (Fin 0)
         in case fdiv result (scan_interval s) of
              Inl err \<Rightarrow> (Inl err, s)
            | Inr result' \<Rightarrow>
                (case map_of (states s) entity_id of
                   None \<Rightarrow> (Inl KeyError, s)
                 | Some _ \<Rightarrow>
                     (Inr result',
                      s\<lparr>states := AList.update entity_id [(now, last_value)] (states s)\<rparr>))))"

text \<open>
  \<^verbatim>\<open>calculate_linear(entity_id, states)\<close>: the mean is computed and the buffer cleared;
  then the arguments of the logging call are evaluated, among them the name \<^verbatim>\<open>total\<close>,
  which is bound neither in the function nor in the module.  The lookup raises NameError, so
  \<^verbatim>\<open>return result\<close> is never reached.
\<close>

definition calculate_linear ::
    "string \<Rightarrow> sample list \<Rightarrow> sensor \<Rightarrow> (error + pyfloat) \<times> sensor" where
  "calculate_linear entity_id sts s =
     (let vals = map snd sts
      in case fdiv (py_sum vals) (real (length vals)) of
           Inl err \<Rightarrow> (Inl err, s)
         | Inr result \<Rightarrow>
             (case map_of (states s) entity_id of
                None \<Rightarrow> (Inl KeyError, s)
              | Some _ \<Rightarrow>
                  (Inl NameError, s\<lparr>states := AList.update entity_id [] (states s)\<rparr>)))"

text \<open>The conversions of \<^verbatim>\<open>update_state\<close>: \<^verbatim>\<open>str(self.min_value)\<close> and the plain id.\<close>

fun py_str :: "pyfloat option \<Rightarrow> pyval" where
  "py_str None = VStr ''None''"
| "py_str (Some x) = VStrFloat x"

fun id_val :: "string option \<Rightarrow> pyval" where
  "id_val None = VNone"
| "id_val (Some e) = VStr e"

text \<open>
  \<^verbatim>\<open>update_state(new_value)\<close> returns the report it writes, if any.  \<^verbatim>\<open>int()\<close> may raise.
\<close>

definition update_state :: "pyfloat \<Rightarrow> sensor \<Rightarrow> (error + report option) \<times> sensor" where
  "update_state new_value s =
     (case (if precision s = 0 then py_int new_value
            else Inr (py_round new_value (precision s))) of
        Inl err \<Rightarrow> (Inl err, s)
      | Inr average \<Rightarrow>
          if py_ne (native_value s) average then
            (let s1 = s\<lparr>native_value := Some average\<rparr>;
                 s2 = (if extremas s1 then
                         s1\<lparr>extra_state_attributes :=
                              (extra_state_attributes s1)
                                (ATTR_MIN_VALUE \<mapsto> py_str (min_value s1),
                                 ATTR_MIN_ENTITY_ID \<mapsto> id_val (min_entity_id s1),
                                 ATTR_MAX_VALUE \<mapsto> py_str (max_value s1),
                                 ATTR_MAX_ENTITY_ID \<mapsto> id_val (max_entity_id s1))\<rparr>
                       else s1)
             in (Inr (Some \<lparr>rep_value = native_value s2, rep_attributes = extra_state_attributes s2\<rparr>), s2))
          else (Inr None, s))"

text \<open>
  The loop of \<^verbatim>\<open>update\<close> over \<^verbatim>\<open>self.states.items()\<close>; an exception ends it.
  A buffer is mutated only in the iteration of its own key, and the keys of a dictionary are
  distinct, so each buffer is visited as it was when the loop started.
\<close>

fun update_loop ::
    "instant \<Rightarrow> (string \<times> sample list) list \<Rightarrow> pyfloat \<Rightarrow> bool \<Rightarrow> sensor
       \<Rightarrow> (error + pyfloat \<times> bool) \<times> sensor" where
  "update_loop now [] tot state_changed s = (Inr (tot, state_changed), s)"
| "update_loop now ((entity_id, sts) # rest) tot state_changed s =
     (if 0 < length sts then
        (case (if avg_method s = Linear then calculate_linear entity_id sts s
               else calculate_tw now entity_id sts s) of
           (Inl err, s') \<Rightarrow> (Inl err, s')
         | (Inr r, s') \<Rightarrow> update_loop now rest (fadd tot r) True s')
      else update_loop now rest tot state_changed s)"

text \<open>The value handed to \<^verbatim>\<open>update_state\<close>: the total, or the total over \<^verbatim>\<open>len(self.states)\<close>.\<close>

definition combined :: "pyfloat \<Rightarrow> sensor \<Rightarrow> error + pyfloat" where
  "combined tot s =
     (if total_method s = TotalAverage then fdiv tot (real (length (states s)))
      else Inr tot)"

definition reset_extrema :: "sensor \<Rightarrow> sensor" where
  "reset_extrema s =
     s\<lparr>min_value := None, max_value := None, min_entity_id := None, max_entity_id := None\<rparr>"

text \<open>
  \<^verbatim>\<open>update()\<close> at the instant \<open>now\<close> that \<^verbatim>\<open>utcnow()\<close> returns.  The result is the report
  written, if any, or the exception that leaves the method; the sensor is returned in
  either case, as the mutations made before a raise persist.
\<close>

definition update :: "instant \<Rightarrow> sensor \<Rightarrow> (error + report option) \<times> sensor" where
  "update now s =
     (case update_loop now (states s) (Fin 0) False s of
        (Inl err, s1) \<Rightarrow> (Inl err, s1)
      | (Inr (tot, state_changed), s1) \<Rightarrow>
          if state_changed then
            (case combined tot s1 of
               Inl err \<Rightarrow> (Inl err, s1)
             | Inr c \<Rightarrow>
                 (case update_state c s1 of
                    (Inl err, s2) \<Rightarrow> (Inl err, s2)
                  | (Inr rep, s2) \<Rightarrow> (Inr rep, reset_extrema s2)))
          else (Inr None, reset_extrema s1))"

section \<open>The specification's formulas\<close>

text \<open>
  The duration of sample \<open>i\<close> among the timestamps \<open>ts\<close>: up to the next sample, and up to
  \<open>now\<close> for the last one.
\<close>

definition duration :: "instant \<Rightarrow> instant list \<Rightarrow> nat \<Rightarrow> real" where
  "duration now ts i = (if i + 1 < length ts then ts ! (i + 1) - ts ! i else now - ts ! i)"

text \<open>The products \<open>v\<^sub>i * duration\<^sub>i\<close> of a buffer, in order.\<close>

definition weighted :: "instant \<Rightarrow> sample list \<Rightarrow> pyfloat list" where
  "weighted now sts =
     map (\<lambda>i. fscale (snd (sts ! i)) (duration now (map fst sts) i)) [0..<length sts]"

text \<open>The time-weighted contribution of a buffer over an interval of length \<open>len\<close>.\<close>

definition tw_contribution :: "instant \<Rightarrow> real \<Rightarrow> sample list \<Rightarrow> pyfloat" where
  "tw_contribution now len sts = fquot (py_sum (weighted now sts)) len"

text \<open>The sources that had at least one sample this interval.\<close>

definition reporting :: "(string \<times> sample list) list \<Rightarrow> (string \<times> sample list) list" where
  "reporting al = filter (\<lambda>p. snd p \<noteq> []) al"

text \<open>
  The combined value in the words of the specification: the sum of the contributions over
  the number of sources that had at least one sample.
\<close>

definition spec_average :: "pyfloat list \<Rightarrow> (string \<times> sample list) list \<Rightarrow> error + pyfloat" where
  "spec_average contributions al = fdiv (py_sum contributions) (real (length (reporting al)))"

text \<open>The buffers after a time-weighted tick: every non-empty one holds its seed.\<close>

definition reseed :: "instant \<Rightarrow> (string \<times> sample list) list \<Rightarrow> (string \<times> sample list) list" where
  "reseed now al = map (\<lambda>p. (fst p, if snd p = [] then [] else [(now, snd (last (snd p)))])) al"

text \<open>Whether an attribute value is a string object.\<close>

fun is_str :: "pyval \<Rightarrow> bool" where
  "is_str (VStr _) = True"
| "is_str (VStrFloat _) = True"
| "is_str _ = False"

text \<open>The value and an attribute of the report of a tick, if one was written.\<close>

fun report_value :: "error + report option \<Rightarrow> pyfloat option" where
  "report_value (Inr (Some rep)) = rep_value rep"
| "report_value _ = None"

fun report_attr :: "string \<Rightarrow> error + report option \<Rightarrow> pyval option" where
  "report_attr k (Inr (Some rep)) = rep_attributes rep k"
| "report_attr k _ = None"

section \<open>Example runs\<close>

text \<open>
  Two sources, linear method, combined by average; source \<open>a\<close> reports 2 and then 4, source
  \<open>b\<close> nothing.
\<close>

definition ex_linear :: sensor where
  "ex_linear =
     snd (async_sensor_changed ''a'' (Some (''4'', 30))
       (snd (async_sensor_changed ''a'' (Some (''2'', 0))
          (init 60 [''a'', ''b''] 1 False Linear TotalAverage))))"

text \<open>Two sources, time-weighted method, combined by average; only \<open>a\<close> reports, the value 3.\<close>

definition ex_average :: sensor where
  "ex_average =
     snd (async_sensor_changed ''a'' (Some (''3'', 0))
       (init 60 [''a'', ''b''] 1 False TimeWeighted TotalAverage))"

text \<open>One source with extrema tracking, time-weighted method; it reports 10 at instant 0.\<close>

definition ex_single :: sensor where
  "ex_single =
     snd (async_sensor_changed ''a'' (Some (''10'', 0))
       (init 60 [''a''] 1 True TimeWeighted TotalSum))"

text \<open>Two sources with extrema tracking and no sample yet.\<close>

definition ex_fresh :: sensor where
  "ex_fresh = init 60 [''a'', ''b''] 1 True TimeWeighted TotalSum"

text \<open>Two sources with extrema tracking; source \<open>a\<close> has reported 5.\<close>

definition ex_seen :: sensor where
  "ex_seen = snd (async_sensor_changed ''a'' (Some (''5'', 0)) ex_fresh)"

text \<open>One source, time-weighted method; it reports 10 at instant 0 and 20 at instant 30.\<close>

definition ex_two :: sensor where
  "ex_two = snd (async_sensor_changed ''a'' (Some (''20'', 30)) ex_single)"

text \<open>The sensor \<open>ex_single\<close> after a tick at instant 30.\<close>

definition ex_ticked :: sensor where
  "ex_ticked = snd (update 30 ex_single)"

section \<open>Evaluation of the examples\<close>

lemmas parse_defs = py_float_def strip_def is_space_def lower_def floatnumber_def is_digit_def
  digit_val_def digits_value_def exponent_def

lemmas const_defs = STATE_UNAVAILABLE_def STATE_UNKNOWN_def ATTR_ENTITY_ID_def ATTR_MIN_VALUE_def
  ATTR_MIN_ENTITY_ID_def ATTR_MAX_VALUE_def ATTR_MAX_ENTITY_ID_def

lemma py_float_2: "py_float ''2'' = Some (Fin 2)"
  by (simp add: parse_defs)

lemma py_float_3: "py_float ''3'' = Some (Fin 3)"
  by (simp add: parse_defs)

lemma py_float_4: "py_float ''4'' = Some (Fin 4)"
  by (simp add: parse_defs)

lemma py_float_5: "py_float ''5'' = Some (Fin 5)"
  by (simp add: parse_defs)

lemma py_float_7: "py_float ''7'' = Some (Fin 7)"
  by (simp add: parse_defs)

lemma py_float_10: "py_float ''10'' = Some (Fin 10)"
  by (simp add: parse_defs)



lemma ex_linear_eq:
  "ex_linear =
     \<lparr> scan_interval = 60, precision = 1, extremas = False, avg_method = Linear,
       total_method = TotalAverage, native_value = None,
       extra_state_attributes = [ATTR_ENTITY_ID \<mapsto> VList [''a'', ''b'']],
       states = [(''a'', [(0, Fin 2), (30, Fin 4)]), (''b'', [])],
       min_value = None, max_value = None, min_entity_id = None, max_entity_id = None \<rparr>"
  by (simp add: ex_linear_def init_def async_sensor_changed_def py_float_2 py_float_4 const_defs)

lemma ex_average_eq:
  "ex_average =
     \<lparr> scan_interval = 60, precision = 1, extremas = False, avg_method = TimeWeighted,
       total_method = TotalAverage, native_value = None,
       extra_state_attributes = [ATTR_ENTITY_ID \<mapsto> VList [''a'', ''b'']],
       states = [(''a'', [(0, Fin 3)]), (''b'', [])],
       min_value = None, max_value = None, min_entity_id = None, max_entity_id = None \<rparr>"
  by (simp add: ex_average_def init_def async_sensor_changed_def py_float_3 const_defs)

lemma ex_single_eq:
  "ex_single =
     \<lparr> scan_interval = 60, precision = 1, extremas = True, avg_method = TimeWeighted,
       total_method = TotalSum, native_value = None,
       extra_state_attributes = [ATTR_ENTITY_ID \<mapsto> VList [''a'']],
       states = [(''a'', [(0, Fin 10)])],
       min_value = Some (Fin 10), max_value = Some (Fin 10),
       min_entity_id = Some ''a'', max_entity_id = Some ''a'' \<rparr>"
  by (simp add: ex_single_def init_def async_sensor_changed_def py_float_10 const_defs)

lemma ex_fresh_eq:
  "ex_fresh =
     \<lparr> scan_interval = 60, precision = 1, extremas = True, avg_method = TimeWeighted,
       total_method = TotalSum, native_value = None,
       extra_state_attributes = [ATTR_ENTITY_ID \<mapsto> VList [''a'', ''b'']],
       states = [(''a'', []), (''b'', [])],
       min_value = None, max_value = None, min_entity_id = None, max_entity_id = None \<rparr>"
  by (simp add: ex_fresh_def init_def)

lemma ex_seen_eq:
  "ex_seen =
     \<lparr> scan_interval = 60, precision = 1, extremas = True, avg_method = TimeWeighted,
       total_method = TotalSum, native_value = None,
       extra_state_attributes = [ATTR_ENTITY_ID \<mapsto> VList [''a'', ''b'']],
       states = [(''a'', [(0, Fin 5)]), (''b'', [])],
       min_value = Some (Fin 5), max_value = Some (Fin 5),
       min_entity_id = Some ''a'', max_entity_id = Some ''a'' \<rparr>"
  by (simp add: ex_seen_def ex_fresh_eq async_sensor_changed_def py_float_5 const_defs)

section \<open>Ingestion\<close>

lemma fless_irrefl: "\<not> fless v v"
  by (cases v) simp_all




text \<open>
  C7.  With extrema tracking enabled and a minimum already set, an ingested value equal to
  the minimum leaves the minimum and its source as they are, and a value equal to the maximum
  leaves the maximum and its source as they are; the minimum (or its source) changes only
  when the value is strictly smaller, the maximum (or its source) only when it is strictly
  larger.
\<close>

theorem extrema_first_seen_wins:
  assumes "extremas s"
    and "st \<noteq> STATE_UNAVAILABLE" and "st \<noteq> STATE_UNKNOWN"
    and "py_float st = Some v"
    and "map_of (states s) entity_id = Some buf"
    and "min_value s = Some mn"
    and "s' = snd (async_sensor_changed entity_id (Some (st, ts)) s)"
  shows "(v = mn \<longrightarrow> min_value s' = min_value s \<and> min_entity_id s' = min_entity_id s) \<and>
         (max_value s = Some v \<longrightarrow>
            max_value s' = max_value s \<and> max_entity_id s' = max_entity_id s) \<and>
         (min_value s' \<noteq> min_value s \<or> min_entity_id s' \<noteq> min_entity_id s \<longrightarrow>
            fless v mn \<and> min_value s' = Some v \<and> min_entity_id s' = Some entity_id) \<and>
         (max_value s' \<noteq> max_value s \<or> max_entity_id s' \<noteq> max_entity_id s \<longrightarrow>
            (\<exists>mx. max_value s = Some mx \<and> fless mx v) \<and>
            max_value s' = Some v \<and> max_entity_id s' = Some entity_id)"
  using assms
  by (auto simp: async_sensor_changed_def Let_def fless_irrefl split: option.splits)

theorem extrema_first_seen_wins_witness:
  "extremas ex_seen \<and> ''5'' \<noteq> STATE_UNAVAILABLE \<and> ''5'' \<noteq> STATE_UNKNOWN \<and>
   py_float ''5'' = Some (Fin 5) \<and> map_of (states ex_seen) ''b'' = Some [] \<and>
   min_value ex_seen = Some (Fin 5) \<and> max_value ex_seen = Some (Fin 5) \<and>
   min_entity_id ex_seen = Some ''a'' \<and> max_entity_id ex_seen = Some ''a'' \<and>
   min_entity_id (snd (async_sensor_changed ''b'' (Some (''5'', 1)) ex_seen)) = Some ''a'' \<and>
   max_entity_id (snd (async_sensor_changed ''b'' (Some (''5'', 1)) ex_seen)) = Some ''a'' \<and>
   min_value (snd (async_sensor_changed ''b'' (Some (''3'', 1)) ex_seen)) \<noteq> min_value ex_seen \<and>
   fless (Fin 3) (Fin 5) \<and>
   min_entity_id (snd (async_sensor_changed ''b'' (Some (''3'', 1)) ex_seen)) = Some ''b'' \<and>
   max_value (snd (async_sensor_changed ''b'' (Some (''7'', 1)) ex_seen)) \<noteq> max_value ex_seen \<and>
   fless (Fin 5) (Fin 7) \<and>
   max_entity_id (snd (async_sensor_changed ''b'' (Some (''7'', 1)) ex_seen)) = Some ''b''"
proof -
  have e: "extremas ex_seen" and b: "map_of (states ex_seen) ''b'' = Some []"
    and mn: "min_value ex_seen = Some (Fin 5)" and mx: "max_value ex_seen = Some (Fin 5)"
    and ids: "min_entity_id ex_seen = Some ''a''" "max_entity_id ex_seen = Some ''a''"
    by (simp_all add: ex_seen_eq)
  have n5: "''5'' \<noteq> STATE_UNAVAILABLE" "''5'' \<noteq> STATE_UNKNOWN"
    and n3: "''3'' \<noteq> STATE_UNAVAILABLE" "''3'' \<noteq> STATE_UNKNOWN"
    and n7: "''7'' \<noteq> STATE_UNAVAILABLE" "''7'' \<noteq> STATE_UNKNOWN"
    by (simp_all add: const_defs)
  have m3: "min_value (snd (async_sensor_changed ''b'' (Some (''3'', 1)) ex_seen)) \<noteq> min_value ex_seen"
    by (simp add: async_sensor_changed_def ex_seen_eq py_float_3 const_defs)
  have m7: "max_value (snd (async_sensor_changed ''b'' (Some (''7'', 1)) ex_seen)) \<noteq> max_value ex_seen"
    by (simp add: async_sensor_changed_def ex_seen_eq py_float_7 const_defs)
  note w5 = extrema_first_seen_wins [OF e n5 py_float_5 b mn refl, of 1]
  note w3 = extrema_first_seen_wins [OF e n3 py_float_3 b mn refl, of 1]
  note w7 = extrema_first_seen_wins [OF e n7 py_float_7 b mn refl, of 1]
  have a5: "min_entity_id (snd (async_sensor_changed ''b'' (Some (''5'', 1)) ex_seen)) = Some ''a''"
    using w5 ids by simp
  have b5: "max_entity_id (snd (async_sensor_changed ''b'' (Some (''5'', 1)) ex_seen)) = Some ''a''"
    using w5 mx ids by simp
  have a3: "fless (Fin 3) (Fin 5) \<and>
      min_entity_id (snd (async_sensor_changed ''b'' (Some (''3'', 1)) ex_seen)) = Some ''b''"
    using w3 m3 by blast
  have a7: "fless (Fin 5) (Fin 7) \<and>
      max_entity_id (snd (async_sensor_changed ''b'' (Some (''7'', 1)) ex_seen)) = Some ''b''"
    using w7 m7 mx by auto
  show ?thesis
    by (intro conjI e n5 py_float_5 b mn mx ids a5 b5 m3 m7 conjunct1 [OF a3] conjunct2 [OF a3]
        conjunct1 [OF a7] conjunct2 [OF a7])
qed

section \<open>Publishing\<close>

lemma attr_names_distinct:
  "ATTR_MIN_VALUE \<noteq> ATTR_MIN_ENTITY_ID" "ATTR_MIN_VALUE \<noteq> ATTR_MAX_VALUE"
  "ATTR_MIN_VALUE \<noteq> ATTR_MAX_ENTITY_ID" "ATTR_MIN_ENTITY_ID \<noteq> ATTR_MAX_VALUE"
  "ATTR_MIN_ENTITY_ID \<noteq> ATTR_MAX_ENTITY_ID" "ATTR_MAX_VALUE \<noteq> ATTR_MAX_ENTITY_ID"
  by (simp_all add: const_defs)

lemma py_str_is_str: "is_str (py_str x)"
  by (cases x) simp_all

text \<open>
  C10.  A report written by \<^verbatim>\<open>update_state\<close> with extrema tracking enabled carries the
  minimum and the maximum as string objects, \<^verbatim>\<open>str\<close> of the tracked float or of
  \<^verbatim>\<open>None\<close>, and the two source ids as they are (an id or \<^verbatim>\<open>None\<close>).
\<close>

theorem published_extrema_are_strings:
  assumes "update_state new_value s = (Inr (Some rep), s')" and "extremas s"
  shows "rep_attributes rep ATTR_MIN_VALUE = Some (py_str (min_value s)) \<and>
         rep_attributes rep ATTR_MAX_VALUE = Some (py_str (max_value s)) \<and>
         is_str (py_str (min_value s)) \<and> is_str (py_str (max_value s)) \<and>
         rep_attributes rep ATTR_MIN_ENTITY_ID = Some (id_val (min_entity_id s)) \<and>
         rep_attributes rep ATTR_MAX_ENTITY_ID = Some (id_val (max_entity_id s))"
  using assms attr_names_distinct
  by (auto simp: update_state_def py_str_is_str split: sum.splits if_splits)

lemma update_state_ex_seen:
  "update_state (Fin 5) ex_seen =
     (Inr (Some \<lparr>rep_value = Some (Fin 5),
                 rep_attributes =
                   [ATTR_ENTITY_ID \<mapsto> VList [''a'', ''b''],
                    ATTR_MIN_VALUE \<mapsto> VStrFloat (Fin 5), ATTR_MIN_ENTITY_ID \<mapsto> VStr ''a'',
                    ATTR_MAX_VALUE \<mapsto> VStrFloat (Fin 5), ATTR_MAX_ENTITY_ID \<mapsto> VStr ''a'']\<rparr>),
      ex_seen\<lparr>native_value := Some (Fin 5),
              extra_state_attributes :=
                [ATTR_ENTITY_ID \<mapsto> VList [''a'', ''b''],
                 ATTR_MIN_VALUE \<mapsto> VStrFloat (Fin 5), ATTR_MIN_ENTITY_ID \<mapsto> VStr ''a'',
                 ATTR_MAX_VALUE \<mapsto> VStrFloat (Fin 5), ATTR_MAX_ENTITY_ID \<mapsto> VStr ''a'']\<rparr>)"
  by (simp add: update_state_def ex_seen_eq round_half_even_def)

theorem published_extrema_are_strings_witness:
  "extremas ex_seen \<and>
   report_attr ATTR_MIN_VALUE (fst (update_state (Fin 5) ex_seen)) = Some (VStrFloat (Fin 5)) \<and>
   report_attr ATTR_MAX_ENTITY_ID (fst (update_state (Fin 5) ex_seen)) = Some (VStr ''a'')"
proof -
  have e: "extremas ex_seen" by (simp add: ex_seen_eq)
  have ids: "min_value ex_seen = Some (Fin 5)" "max_entity_id ex_seen = Some ''a''"
    by (simp_all add: ex_seen_eq)
  show ?thesis
    using published_extrema_are_strings [OF update_state_ex_seen e] e ids
    by (simp add: update_state_ex_seen)
qed

section \<open>The linear method\<close>

text \<open>Whatever the buffer, \<^verbatim>\<open>calculate_linear\<close> ends in an exception.\<close>

lemma calculate_linear_raises: "\<exists>err. fst (calculate_linear entity_id sts s) = Inl err"
  by (simp add: calculate_linear_def split: sum.splits option.splits)

text \<open>
  C6 fails on the code.  With the linear method and a non-empty buffer the tick leaves
  \<^verbatim>\<open>update\<close> with a NameError, raised by \<^verbatim>\<open>calculate_linear\<close>; ingestion of a
  well-formed value for a configured source returns normally.
\<close>

theorem linear_tick_raises:
  "fst (update 60 ex_linear) = Inl NameError \<and>
   fst (async_sensor_changed ''a'' (Some (''4'', 30)) ex_linear) = Inr ()"
  by (simp add: ex_linear_eq update_def calculate_linear_def py_sum_def fdiv_def
      async_sensor_changed_def py_float_4 const_defs)

text \<open>
  C5 fails on the code.  For the buffer with the values 2 and 4 the mean is 3, but
  \<^verbatim>\<open>calculate_linear\<close> raises NameError instead of returning it.
\<close>

theorem linear_contribution_not_returned:
  "fdiv (py_sum (map snd [(0, Fin 2), (30, Fin 4)])) (real (length [(0::real, Fin 2), (30, Fin 4)]))
     = Inr (Fin 3) \<and>
   fst (calculate_linear ''a'' [(0, Fin 2), (30, Fin 4)] ex_linear) = Inl NameError"
  by (simp add: ex_linear_eq calculate_linear_def py_sum_def fdiv_def)

section \<open>The time-weighted method\<close>

lemma tw_loop_sum:
  assumes "k + length xs = length sts" and "\<forall>j<length xs. xs ! j = sts ! (k + j)"
  shows "tw_loop now sts (length sts - 1) (enumerate k xs) r =
         foldl fadd r (map (\<lambda>i. fscale (snd (sts ! i)) (duration now (map fst sts) i))
                         [k..<k + length xs])"
  using assms
proof (induction xs arbitrary: k r)
  case Nil
  then show ?case by simp
next
  case (Cons x xs)
  obtain start v where x: "x = (start, v)" by (cases x)
  have xk: "sts ! k = (start, v)"
    using Cons.prems(2) x by (metis add.right_neutral length_greater_0_conv list.distinct(1) nth_Cons_0)
  have len: "Suc k + length xs = length sts"
    using Cons.prems(1) by simp
  have nth: "\<forall>j<length xs. xs ! j = sts ! (Suc k + j)"
  proof (intro allI impI)
    fix j assume "j < length xs"
    then have "(x # xs) ! Suc j = sts ! (k + Suc j)"
      using Cons.prems(2) by (metis Suc_less_eq length_Cons)
    then show "xs ! j = sts ! (Suc k + j)" by simp
  qed
  have lt: "k < length sts" using Cons.prems(1) by simp
  have dur: "(if k < length sts - 1 then fst (sts ! (k + 1)) else now) - start =
             duration now (map fst sts) k"
    using lt xk by (auto simp: duration_def)
  have upt: "[k..<k + length (x # xs)] = k # [Suc k..<Suc k + length xs]"
    by (subst upt_rec) simp
  show ?case
    unfolding upt
    using Cons.IH [OF len nth] dur xk
    by (simp add: x)
qed

lemma py_sum_weighted:
  "tw_loop now sts (length sts - Suc 0) (enumerate 0 sts) (Fin 0) = py_sum (weighted now sts)"
  using tw_loop_sum [of 0 sts sts now "Fin 0"]
  by (simp add: py_sum_def weighted_def)




section \<open>The tick\<close>

lemma update_loop_empty:
  "\<forall>p\<in>set items. snd p = [] \<Longrightarrow> update_loop now items tot ch s = (Inr (tot, ch), s)"
  by (induction items) auto

lemma update_all_empty:
  assumes "\<forall>p\<in>set (states s). snd p = []"
  shows "update now s = (Inr None, reset_extrema s)"
  by (simp add: update_def update_loop_empty [OF assms])

text \<open>
  C3, as the code has it.  When every buffer is empty at the first of two successive ticks,
  neither tick writes a report, and the native value and the buffers are as before.
\<close>

theorem tick_without_samples:
  assumes "\<forall>p\<in>set (states s). snd p = []"
  shows "fst (update now1 s) = Inr None \<and>
         fst (update now2 (snd (update now1 s))) = Inr None \<and>
         native_value (snd (update now1 s)) = native_value s \<and>
         native_value (snd (update now2 (snd (update now1 s)))) = native_value s \<and>
         states (snd (update now2 (snd (update now1 s)))) = states s"
proof -
  have first: "update now1 s = (Inr None, reset_extrema s)"
    by (rule update_all_empty [OF assms])
  have "\<forall>p\<in>set (states (reset_extrema s)). snd p = []"
    using assms by (simp add: reset_extrema_def)
  then have second: "update now2 (reset_extrema s) = (Inr None, reset_extrema (reset_extrema s))"
    by (rule update_all_empty)
  show ?thesis
    by (simp add: first second) (simp add: reset_extrema_def)
qed

lemma alist_update_middle:
  "k \<notin> fst ` set xs \<Longrightarrow> AList.update k v (xs @ (k, w) # ys) = xs @ (k, v) # ys"
  by (induction xs) auto

lemma map_of_middle:
  "k \<notin> fst ` set xs \<Longrightarrow> map_of (xs @ (k, w) # ys) k = Some w"
  by (induction xs) auto

lemma calculate_tw_step:
  assumes "states s = pre @ (e, sts) # rest" and "e \<notin> fst ` set pre"
    and "sts \<noteq> []" and "scan_interval s \<noteq> 0"
  shows "calculate_tw now e sts s =
           (Inr (tw_contribution now (scan_interval s) sts),
            s\<lparr>states := pre @ (e, [(now, snd (last sts))]) # rest\<rparr>)"
proof -
  have m: "map_of (states s) e = Some sts"
    using assms(1,2) by (simp add: map_of_middle del: map_of_append)
  have u: "AList.update e [(now, snd (last sts))] (states s) =
           pre @ (e, [(now, snd (last sts))]) # rest"
    using assms(1,2) by (simp add: alist_update_middle)
  show ?thesis
    using assms(3,4)
    by (simp add: calculate_tw_def fdiv_def py_sum_weighted tw_contribution_def m u)
qed

lemma update_loop_tw:
  assumes "avg_method s = TimeWeighted" and "scan_interval s \<noteq> 0"
    and "states s = pre @ items" and "distinct (map fst (pre @ items))"
  shows "update_loop now items tot ch s =
           (Inr (foldl fadd tot (map (tw_contribution now (scan_interval s))
                                   (map snd (reporting items))),
                 ch \<or> (\<exists>p\<in>set items. snd p \<noteq> [])),
            s\<lparr>states := pre @ reseed now items\<rparr>)"
  using assms
proof (induction items arbitrary: pre tot ch s)
  case Nil
  then show ?case by (simp add: reporting_def reseed_def)
next
  case (Cons p items)
  obtain e sts where p: "p = (e, sts)" by (cases p)
  show ?case
  proof (cases "sts = []")
    case True
    have st: "states s = (pre @ [(e, [])]) @ items"
      using Cons.prems(3) p True by simp
    have di: "distinct (map fst ((pre @ [(e, [])]) @ items))"
      using Cons.prems(4) p by simp
    show ?thesis
      using Cons.IH [OF Cons.prems(1,2) st di, of tot ch] p True
      by (simp add: reporting_def reseed_def)
  next
    case False
    have notin: "e \<notin> fst ` set pre"
      using Cons.prems(4) p by auto
    let ?seed = "[(now, snd (last sts))]"
    let ?s' = "s\<lparr>states := pre @ (e, ?seed) # items\<rparr>"
    have step: "calculate_tw now e sts s = (Inr (tw_contribution now (scan_interval s) sts), ?s')"
      using calculate_tw_step [OF _ notin False Cons.prems(2)] Cons.prems(3) p by simp
    have st: "states ?s' = (pre @ [(e, ?seed)]) @ items" by simp
    have di: "distinct (map fst ((pre @ [(e, ?seed)]) @ items))"
      using Cons.prems(4) p by simp
    have m: "avg_method ?s' = TimeWeighted" and i: "scan_interval ?s' \<noteq> 0"
      using Cons.prems(1,2) by simp_all
    show ?thesis
      using Cons.IH [OF m i st di, of "fadd tot (tw_contribution now (scan_interval s) sts)" True]
        p False step Cons.prems(1)
      by (simp add: reporting_def reseed_def)
  qed
qed

lemma update_tw:
  assumes "avg_method s = TimeWeighted" and "scan_interval s \<noteq> 0"
    and "distinct (map fst (states s))"
  shows "update_loop now (states s) (Fin 0) False s =
           (Inr (py_sum (map (tw_contribution now (scan_interval s))
                           (map snd (reporting (states s)))),
                 \<exists>p\<in>set (states s). snd p \<noteq> []),
            s\<lparr>states := reseed now (states s)\<rparr>)"
  using update_loop_tw [OF assms(1,2), of "[]" "states s" now "Fin 0" False] assms(3)
  by (simp add: py_sum_def)

lemma length_reseed: "length (reseed now al) = length al"
  by (simp add: reseed_def)

text \<open>
  C1, as the code has it.  Under the time-weighted method with a non-zero scan interval, a
  tick that combines by average and finds at least one non-empty buffer hands to
  \<^verbatim>\<open>update_state\<close> the sum of the contributions of the non-empty buffers divided by the
  number of all configured sources, \<^verbatim>\<open>len(self.states)\<close>.
\<close>

theorem average_over_configured_sources:
  assumes "avg_method s = TimeWeighted" and "total_method s = TotalAverage"
    and "scan_interval s \<noteq> 0" and "distinct (map fst (states s))"
    and "\<exists>p\<in>set (states s). snd p \<noteq> []"
  shows "update now s =
           (case update_state
                   (fquot (py_sum (map (tw_contribution now (scan_interval s))
                                     (map snd (reporting (states s)))))
                      (real (length (states s))))
                   (s\<lparr>states := reseed now (states s)\<rparr>) of
              (Inl err, s2) \<Rightarrow> (Inl err, s2)
            | (Inr rep, s2) \<Rightarrow> (Inr rep, reset_extrema s2))"
proof -
  have ne: "states s \<noteq> []"
    using assms(5) by auto
  show ?thesis
    using assms(2,5) ne
    by (simp add: update_def update_tw [OF assms(1,3,4)] combined_def fdiv_def length_reseed)
qed

lemma states_update_state: "update_state v s = (r, s') \<Longrightarrow> states s' = states s"
  by (auto simp: update_state_def Let_def split: sum.splits if_splits)

lemma map_of_reseed:
  assumes "distinct (map fst al)" and "(e, sts) \<in> set al" and "sts \<noteq> []"
  shows "map_of (reseed now al) e = Some [(now, snd (last sts))]"
proof -
  have "map_of al e = Some sts"
    using assms(1,2) by (rule map_of_is_SomeI)
  moreover have "reseed now al =
      map (\<lambda>(k, b). (k, if b = [] then [] else [(now, snd (last b))])) al"
    by (simp add: reseed_def case_prod_beta)
  ultimately show ?thesis
    using assms(3) by (simp add: map_of_map)
qed

text \<open>
  C2, as the code has it.  Under the time-weighted method with a non-zero scan interval,
  every source whose buffer was non-empty at the tick holds exactly one sample after it:
  the tick instant with the value of the last sample of the old buffer.
\<close>

theorem seed_after_time_weighted_tick:
  assumes "avg_method s = TimeWeighted" and "scan_interval s \<noteq> 0"
    and "distinct (map fst (states s))"
    and "(entity_id, sts) \<in> set (states s)" and "sts \<noteq> []"
  shows "map_of (states (snd (update now s))) entity_id = Some [(now, snd (last sts))]"
proof -
  have "states (snd (update now s)) = reseed now (states s)"
    by (auto simp: update_def update_tw [OF assms(1,2,3)] reset_extrema_def
        split: sum.splits prod.splits dest: states_update_state)
  then show ?thesis
    by (simp add: map_of_reseed [OF assms(3,4,5)])
qed

lemma calculate_tw_frame:
  "snd (calculate_tw now e sts s) = s\<lparr>states := states (snd (calculate_tw now e sts s))\<rparr>"
  by (simp add: calculate_tw_def Let_def split: sum.splits option.splits)

lemma calculate_linear_frame:
  "snd (calculate_linear e sts s) = s\<lparr>states := states (snd (calculate_linear e sts s))\<rparr>"
  by (simp add: calculate_linear_def Let_def split: sum.splits option.splits)

lemma update_loop_frame:
  "snd (update_loop now items tot ch s) =
     s\<lparr>states := states (snd (update_loop now items tot ch s))\<rparr>"
proof (induction items arbitrary: tot ch s)
  case Nil
  show ?case by simp
next
  case (Cons p items)
  obtain e sts where p: "p = (e, sts)" by (cases p)
  show ?case
  proof (cases "sts = []")
    case True
    then show ?thesis using Cons.IH [of tot ch s] p by simp
  next
    case False
    define c where "c = (if avg_method s = Linear then calculate_linear e sts s
                         else calculate_tw now e sts s)"
    have al: "snd c = s\<lparr>states := states (snd c)\<rparr>"
      using calculate_tw_frame [of now e sts s] calculate_linear_frame [of e sts s]
      by (simp add: c_def)
    show ?thesis
    proof (cases "fst c")
      case (Inl err)
      then have "update_loop now (p # items) tot ch s = (Inl err, snd c)"
        using p False by (cases c) (simp add: c_def [symmetric])
      then show ?thesis using al by simp
    next
      case (Inr r)
      then have eq: "update_loop now (p # items) tot ch s =
                 update_loop now items (fadd tot r) True (snd c)"
        using p False by (cases c) (simp add: c_def [symmetric])
      have "snd (update_loop now items (fadd tot r) True (snd c)) =
            (snd c)\<lparr>states := states (snd (update_loop now items (fadd tot r) True (snd c)))\<rparr>"
        by (rule Cons.IH)
      also have "\<dots> = s\<lparr>states := states (snd (update_loop now items (fadd tot r) True (snd c)))\<rparr>"
        by (subst al) simp
      finally show ?thesis by (simp add: eq)
    qed
  qed
qed

lemma update_state_unset:
  assumes "update_state c s1 = (Inr (Some rep), s2)" and "extremas s1"
    and "min_value s1 = None" and "max_value s1 = None"
    and "min_entity_id s1 = None" and "max_entity_id s1 = None"
  shows "rep_attributes rep ATTR_MIN_VALUE = Some (VStr ''None'') \<and>
         rep_attributes rep ATTR_MAX_VALUE = Some (VStr ''None'') \<and>
         rep_attributes rep ATTR_MIN_ENTITY_ID = Some VNone \<and>
         rep_attributes rep ATTR_MAX_ENTITY_ID = Some VNone"
  using assms attr_names_distinct
  by (auto simp: update_state_def split: sum.splits if_splits)

text \<open>
  C9, as the code has it.  When a tick with extrema tracking enabled writes a report while
  the tracker is unset (no sample was ingested in the interval just closed), the two source
  ids are published as \<^verbatim>\<open>None\<close> and the two values as the string \<^verbatim>\<open>'None'\<close>.
\<close>

theorem unset_extrema_published:
  assumes "fst (update now s) = Inr (Some rep)" and "extremas s"
    and "min_value s = None" and "max_value s = None"
    and "min_entity_id s = None" and "max_entity_id s = None"
  shows "rep_attributes rep ATTR_MIN_VALUE = Some (VStr ''None'') \<and>
         rep_attributes rep ATTR_MAX_VALUE = Some (VStr ''None'') \<and>
         rep_attributes rep ATTR_MIN_ENTITY_ID = Some VNone \<and>
         rep_attributes rep ATTR_MAX_ENTITY_ID = Some VNone"
proof -
  obtain r s1 where loop: "update_loop now (states s) (Fin 0) False s = (r, s1)"
    by (cases "update_loop now (states s) (Fin 0) False s")
  have fr: "s1 = s\<lparr>states := states s1\<rparr>"
    using update_loop_frame [of now "states s" "Fin 0" False s] loop by simp
  have f: "extremas s1 = extremas s" "min_value s1 = min_value s"
      "max_value s1 = max_value s" "min_entity_id s1 = min_entity_id s"
      "max_entity_id s1 = max_entity_id s"
    by (subst fr, simp)+
  obtain c s2 where "update_state c s1 = (Inr (Some rep), s2)"
    using assms(1) loop
    by (auto simp: update_def split: sum.splits prod.splits if_splits)
  then show ?thesis
    using update_state_unset f assms(2-) by simp
qed

section \<open>The dictionary keeps its keys\<close>

text \<open>
  The theorems on the tick assume that the keys of \<open>states\<close> are distinct, as the keys of
  a dictionary are.  The constructor establishes this, and ingestion and ticks keep the keys
  as they are, whether they return or raise.
\<close>

lemma keys_update_present:
  "map_of al k = Some v \<Longrightarrow> map fst (AList.update k w al) = map fst al"
  by (auto simp: update_keys dest: map_of_SomeD intro: rev_image_eqI)

lemma distinct_fold_update:
  "distinct (map fst al) \<Longrightarrow> distinct (map fst (foldl (\<lambda>al e. AList.update e [] al) al ids))"
  by (induction ids arbitrary: al) (simp_all add: distinct_update)

lemma distinct_init: "distinct (map fst (states (init interval ids prec extr meth tmeth)))"
  using distinct_fold_update [of "[]" ids] by (simp add: init_def)

lemma keys_async_sensor_changed:
  "map fst (states (snd (async_sensor_changed entity_id new_state s))) = map fst (states s)"
  by (auto simp: async_sensor_changed_def Let_def keys_update_present
      split: option.splits prod.splits)

lemma keys_calculate_tw:
  "map fst (states (snd (calculate_tw now e sts s))) = map fst (states s)"
  by (auto simp: calculate_tw_def Let_def keys_update_present split: sum.splits option.splits)

lemma keys_calculate_linear:
  "map fst (states (snd (calculate_linear e sts s))) = map fst (states s)"
  by (auto simp: calculate_linear_def Let_def keys_update_present split: sum.splits option.splits)

lemma keys_update_loop:
  "map fst (states (snd (update_loop now items tot ch s))) = map fst (states s)"
proof (induction items arbitrary: tot ch s)
  case Nil
  show ?case by simp
next
  case (Cons p items)
  obtain e sts where p: "p = (e, sts)" by (cases p)
  define c where "c = (if avg_method s = Linear then calculate_linear e sts s
                       else calculate_tw now e sts s)"
  have k: "map fst (states (snd c)) = map fst (states s)"
    by (simp add: c_def keys_calculate_tw keys_calculate_linear)
  show ?case
  proof (cases "sts = []")
    case True
    then show ?thesis using Cons.IH [of tot ch s] p by simp
  next
    case False
    show ?thesis
    proof (cases c)
      case (Pair r s')
      then show ?thesis
        using p False k Cons.IH [of _ True s']
        by (cases r) (simp_all add: c_def [symmetric])
    qed
  qed
qed

lemma keys_update:
  "map fst (states (snd (update now s))) = map fst (states s)"
proof -
  obtain r s1 where loop: "update_loop now (states s) (Fin 0) False s = (r, s1)"
    by (cases "update_loop now (states s) (Fin 0) False s")
  have k: "map fst (states s1) = map fst (states s)"
    using keys_update_loop [of now "states s" "Fin 0" False s] loop by simp
  show ?thesis
    using k loop
    by (auto simp: update_def reset_extrema_def split: sum.splits prod.splits
        dest: states_update_state)
qed

section \<open>Runs of the examples\<close>

lemma py_float_20: "py_float ''20'' = Some (Fin 20)"
  by (simp add: parse_defs)

lemma ex_two_eq:
  "ex_two =
     \<lparr> scan_interval = 60, precision = 1, extremas = True, avg_method = TimeWeighted,
       total_method = TotalSum, native_value = None,
       extra_state_attributes = [ATTR_ENTITY_ID \<mapsto> VList [''a'']],
       states = [(''a'', [(0, Fin 10), (30, Fin 20)])],
       min_value = Some (Fin 10), max_value = Some (Fin 20),
       min_entity_id = Some ''a'', max_entity_id = Some ''a'' \<rparr>"
  by (simp add: ex_two_def ex_single_eq async_sensor_changed_def py_float_20 const_defs)

lemmas tick_defs = update_def calculate_tw_def calculate_linear_def fdiv_def combined_def
  update_state_def round_half_even_def reset_extrema_def py_sum_def

lemma ex_ticked_eq:
  "ex_ticked =
     \<lparr> scan_interval = 60, precision = 1, extremas = True, avg_method = TimeWeighted,
       total_method = TotalSum, native_value = Some (Fin 5),
       extra_state_attributes =
         [ATTR_ENTITY_ID \<mapsto> VList [''a''],
          ATTR_MIN_VALUE \<mapsto> VStrFloat (Fin 10), ATTR_MIN_ENTITY_ID \<mapsto> VStr ''a'',
          ATTR_MAX_VALUE \<mapsto> VStrFloat (Fin 10), ATTR_MAX_ENTITY_ID \<mapsto> VStr ''a''],
       states = [(''a'', [(30, Fin 10)])],
       min_value = None, max_value = None, min_entity_id = None, max_entity_id = None \<rparr>"
  by (simp add: ex_ticked_def ex_single_eq tick_defs)

lemma first_tick_report: "report_value (fst (update 30 ex_single)) = Some (Fin 5)"
  by (simp add: ex_single_eq tick_defs)

lemma second_tick:
  "update 90 ex_ticked =
     (Inr (Some \<lparr>rep_value = Some (Fin 10),
                 rep_attributes =
                   [ATTR_ENTITY_ID \<mapsto> VList [''a''],
                    ATTR_MIN_VALUE \<mapsto> VStr ''None'', ATTR_MIN_ENTITY_ID \<mapsto> VNone,
                    ATTR_MAX_VALUE \<mapsto> VStr ''None'', ATTR_MAX_ENTITY_ID \<mapsto> VNone]\<rparr>),
      ex_ticked\<lparr>native_value := Some (Fin 10),
                extra_state_attributes :=
                   [ATTR_ENTITY_ID \<mapsto> VList [''a''],
                    ATTR_MIN_VALUE \<mapsto> VStr ''None'', ATTR_MIN_ENTITY_ID \<mapsto> VNone,
                    ATTR_MAX_VALUE \<mapsto> VStr ''None'', ATTR_MAX_ENTITY_ID \<mapsto> VNone],
                states := [(''a'', [(90, Fin 10)])]\<rparr>)"
  by (simp add: ex_ticked_eq tick_defs attr_names_distinct)

lemma average_tick: "report_value (fst (update 60 ex_average)) = Some (Fin (3 / 2))"
  by (simp add: ex_average_eq tick_defs)

lemma linear_tick_states: "states (snd (update 60 ex_linear)) = [(''a'', []), (''b'', [])]"
  by (simp add: ex_linear_eq tick_defs)


theorem tick_without_samples_witness:
  "states ex_fresh = [(''a'', []), (''b'', [])] \<and>
   fst (update 60 ex_fresh) = Inr None \<and>
   fst (update 120 (snd (update 60 ex_fresh))) = Inr None \<and>
   native_value (snd (update 120 (snd (update 60 ex_fresh)))) = None"
proof -
  have st: "states ex_fresh = [(''a'', []), (''b'', [])]" and nv: "native_value ex_fresh = None"
    by (simp_all add: ex_fresh_eq)
  have h: "\<forall>p\<in>set (states ex_fresh). snd p = []"
    by (simp add: st)
  show ?thesis
    using tick_without_samples [OF h, of 60 120] st nv by simp
qed

text \<open>
  C3 as stated fails: a tick at 30 reports 5 and leaves the seed \<open>(30, 10)\<close>; with no
  ingestion in between, the tick at 90 processes the seed and reports 10.
\<close>

theorem second_tick_reports_counterexample:
  "report_value (fst (update 30 ex_single)) = Some (Fin 5) \<and>
   native_value (snd (update 30 ex_single)) = Some (Fin 5) \<and>
   report_value (fst (update 90 (snd (update 30 ex_single)))) = Some (Fin 10) \<and>
   native_value (snd (update 90 (snd (update 30 ex_single)))) = Some (Fin 10)"
  using first_tick_report
  by (simp add: ex_ticked_def [symmetric] second_tick) (simp add: ex_ticked_eq)

text \<open>
  C1 as stated fails: of two configured sources only \<open>a\<close> has samples, with contribution 3;
  the specification's average over the reporting sources is 3, the code divides by 2 and
  reports 1.5.
\<close>

theorem average_denominator_counterexample:
  "total_method ex_average = TotalAverage \<and>
   reporting (states ex_average) = [(''a'', [(0, Fin 3)])] \<and>
   length (states ex_average) = 2 \<and>
   map (tw_contribution 60 (scan_interval ex_average)) (map snd (reporting (states ex_average)))
     = [Fin 3] \<and>
   spec_average [Fin 3] (states ex_average) = Inr (Fin 3) \<and>
   combined (Fin 3) ex_average = Inr (Fin (3 / 2)) \<and>
   report_value (fst (update 60 ex_average)) = Some (Fin (3 / 2))"
  using average_tick
  by (simp add: ex_average_eq reporting_def tw_contribution_def weighted_def duration_def
      py_sum_def spec_average_def fdiv_def combined_def)

theorem average_over_configured_sources_witness:
  "avg_method ex_average = TimeWeighted \<and> total_method ex_average = TotalAverage \<and>
   scan_interval ex_average = 60 \<and> states ex_average = [(''a'', [(0, Fin 3)]), (''b'', [])] \<and>
   update 60 ex_average =
     (case update_state (Fin (3 / 2))
             (ex_average\<lparr>states := [(''a'', [(60, Fin 3)]), (''b'', [])]\<rparr>) of
        (Inl err, s2) \<Rightarrow> (Inl err, s2)
      | (Inr rep, s2) \<Rightarrow> (Inr rep, reset_extrema s2))"
proof -
  have m: "avg_method ex_average = TimeWeighted" and t: "total_method ex_average = TotalAverage"
    and i: "scan_interval ex_average = 60"
    and st: "states ex_average = [(''a'', [(0, Fin 3)]), (''b'', [])]"
    by (simp_all add: ex_average_eq)
  have i0: "scan_interval ex_average \<noteq> 0" by (simp add: i)
  have d: "distinct (map fst (states ex_average))" by (simp add: st)
  have ne: "\<exists>p\<in>set (states ex_average). snd p \<noteq> []" by (simp add: st)
  have c: "fquot (py_sum (map (tw_contribution 60 (scan_interval ex_average))
                            (map snd (reporting (states ex_average)))))
             (real (length (states ex_average))) = Fin (3 / 2)"
    by (simp add: i st reporting_def tw_contribution_def weighted_def duration_def py_sum_def)
  have r: "reseed 60 (states ex_average) = [(''a'', [(60, Fin 3)]), (''b'', [])]"
    by (simp add: st reseed_def)
  have "update 60 ex_average =
     (case update_state (Fin (3 / 2))
             (ex_average\<lparr>states := [(''a'', [(60, Fin 3)]), (''b'', [])]\<rparr>) of
        (Inl err, s2) \<Rightarrow> (Inl err, s2)
      | (Inr rep, s2) \<Rightarrow> (Inr rep, reset_extrema s2))"
    using average_over_configured_sources [OF m t i0 d ne, of 60]
    by (simp only: c r)
  then show ?thesis
    by (intro conjI m t i st)
qed

text \<open>
  C2 as stated fails for the linear method: after the tick the buffer of \<open>a\<close>, non-empty
  before, is empty and holds no seed.
\<close>

theorem linear_tick_not_seeded_counterexample:
  "avg_method ex_linear = Linear \<and>
   map_of (states ex_linear) ''a'' = Some [(0, Fin 2), (30, Fin 4)] \<and>
   map_of (states (snd (update 60 ex_linear))) ''a'' = Some []"
  by (simp add: linear_tick_states) (simp add: ex_linear_eq)

theorem seed_after_time_weighted_tick_witness:
  "avg_method ex_two = TimeWeighted \<and> scan_interval ex_two = 60 \<and>
   states ex_two = [(''a'', [(0, Fin 10), (30, Fin 20)])] \<and>
   map_of (states (snd (update 60 ex_two))) ''a'' = Some [(60, Fin 20)]"
proof -
  have m: "avg_method ex_two = TimeWeighted" and i: "scan_interval ex_two = 60"
    and st: "states ex_two = [(''a'', [(0, Fin 10), (30, Fin 20)])]"
    by (simp_all add: ex_two_eq)
  have i0: "scan_interval ex_two \<noteq> 0" by (simp add: i)
  have d: "distinct (map fst (states ex_two))" by (simp add: st)
  have mem: "(''a'', [(0, Fin 10), (30, Fin 20)]) \<in> set (states ex_two)" by (simp add: st)
  have ne: "[(0::real, Fin 10), (30, Fin 20)] \<noteq> []" by simp
  show ?thesis
    using seed_after_time_weighted_tick [OF m i0 d mem ne, of 60] m i st by simp
qed

text \<open>
  C9 as stated fails: the second tick writes a report while the tracker is unset, and the
  minimum and maximum attributes are present with the string \<^verbatim>\<open>'None'\<close>, which is
  not \<^verbatim>\<open>None\<close>.
\<close>

theorem unset_extrema_counterexample:
  "extremas ex_ticked \<and> min_value ex_ticked = None \<and> max_value ex_ticked = None \<and>
   report_value (fst (update 90 ex_ticked)) = Some (Fin 10) \<and>
   report_attr ATTR_MIN_VALUE (fst (update 90 ex_ticked)) = Some (VStr ''None'') \<and>
   report_attr ATTR_MAX_VALUE (fst (update 90 ex_ticked)) = Some (VStr ''None'') \<and>
   VStr ''None'' \<noteq> VNone"
  using attr_names_distinct
  by (simp add: second_tick) (simp add: ex_ticked_eq)

theorem unset_extrema_published_witness:
  "extremas ex_ticked \<and> min_value ex_ticked = None \<and> max_value ex_ticked = None \<and>
   min_entity_id ex_ticked = None \<and> max_entity_id ex_ticked = None \<and>
   report_value (fst (update 90 ex_ticked)) = Some (Fin 10) \<and>
   report_attr ATTR_MIN_ENTITY_ID (fst (update 90 ex_ticked)) = Some VNone \<and>
   report_attr ATTR_MAX_ENTITY_ID (fst (update 90 ex_ticked)) = Some VNone"
proof -
  have e: "extremas ex_ticked" and mn: "min_value ex_ticked = None"
    and mx: "max_value ex_ticked = None" and mi: "min_entity_id ex_ticked = None"
    and xi: "max_entity_id ex_ticked = None"
    by (simp_all add: ex_ticked_eq)
  define rep where "rep = \<lparr>rep_value = Some (Fin 10),
                 rep_attributes =
                   [ATTR_ENTITY_ID \<mapsto> VList [''a''],
                    ATTR_MIN_VALUE \<mapsto> VStr ''None'', ATTR_MIN_ENTITY_ID \<mapsto> VNone,
                    ATTR_MAX_VALUE \<mapsto> VStr ''None'', ATTR_MAX_ENTITY_ID \<mapsto> VNone]\<rparr>"
  have f: "fst (update 90 ex_ticked) = Inr (Some rep)"
    by (simp add: second_tick rep_def)
  have v: "rep_value rep = Some (Fin 10)" by (simp add: rep_def)
  show ?thesis
    using unset_extrema_published [OF f e mn mx mi xi] e mn mx mi xi v
    by (simp add: f)
qed

end
